theory Spec2Isabelle
  imports Main
begin

section \<open>The WebUSB facade of node-usb (src/tsc/webusb/index.ts)\<close>

subsection \<open>Data model\<close>

text \<open>
  \<^verbatim>\<open>USBDeviceFilter\<close>: every member is optional (\<open>None\<close> is JavaScript's
  \<^verbatim>\<open>undefined\<close>). Numbers are naturals; a serial number is a string.
\<close>

record USBDeviceFilter =
  vendorId :: "nat option"
  productId :: "nat option"
  classCode :: "nat option"
  subclassCode :: "nat option"
  protocolCode :: "nat option"
  serialNumber :: "string option"

text \<open>
  The WebUSB view of a device (\<^verbatim>\<open>USBDevice\<close>). Its \<^verbatim>\<open>configuration\<close> and its
  \<^verbatim>\<open>serialNumber\<close> are optional members; each interface carries its active
  \<^verbatim>\<open>alternate\<close> setting.
\<close>

record USBAlternateInterface =
  interfaceClass :: nat
  interfaceSubclass :: nat
  interfaceProtocol :: nat

record USBInterface =
  alternate :: USBAlternateInterface

record USBConfiguration =
  interfaces :: "USBInterface list"

record USBDevice =
  dev_vendorId :: nat
  dev_productId :: nat
  deviceClass :: nat
  deviceSubclass :: nat
  deviceProtocol :: nat
  dev_serialNumber :: "string option"
  configuration :: "USBConfiguration option"

text \<open>
  The backend's raw device (\<^verbatim>\<open>usb.Device\<close>). The source keys its map by object
  identity; \<open>handle\<close> stands for that identity, and \<open>idVendor\<close>, \<open>idProduct\<close> are
  the two members of \<^verbatim>\<open>deviceDescriptor\<close> the source reads.
\<close>

record usb_Device =
  handle :: nat
  idVendor :: nat
  idProduct :: nat

text \<open>The two errors the source throws: \<^verbatim>\<open>TypeError(message)\<close> and
  \<^verbatim>\<open>NamedError(message, name)\<close>.\<close>

datatype error = TypeError string | NamedError string string

text \<open>The outcome of awaiting the \<^verbatim>\<open>devicesFound\<close> callback: it resolves to a device or
  to nothing, or it rejects.\<close>

datatype selection = Resolved "USBDevice option" | Rejected

record USBOptions =
  devicesFound :: "(USBDevice list \<Rightarrow> selection) option"
  allowedDevices :: "USBDeviceFilter list option"
  allowAllDevices :: "bool option"
  deviceTimeout :: "nat option"
  autoDetachKernelDriver :: "bool option"

text \<open>The argument of \<^verbatim>\<open>requestDevice\<close>, as far as its four structural checks
  distinguish it.\<close>

datatype js_filters = FiltersAbsent | FiltersNotSequence | FiltersArray "USBDeviceFilter list"

datatype js_options = OptionsAbsent | OptionsNotObject | OptionsObject js_filters

text \<open>The notification channels of the facade and the raw events of the backend.\<close>

datatype event_type = Connect | Disconnect

datatype usb_event = Attach | Detach

record USBConnectionEvent =
  ev_type :: event_type
  ev_device :: USBDevice

text \<open>
  Every call the facade makes on its collaborators (the \<^verbatim>\<open>usb\<close> module and
  \<^verbatim>\<open>WebUSBDevice.createInstance\<close>) is recorded, in order, in a trace.
\<close>

datatype backend_call =
    GetDeviceList
  | SetTimeout usb_Device nat
  | CreateInstance usb_Device "bool option"
  | AddListener usb_event
  | RemoveListener usb_event

text \<open>
  The collaborators themselves are parameters: what \<^verbatim>\<open>usb.getDeviceList()\<close> returns
  and what \<^verbatim>\<open>WebUSBDevice.createInstance(device, autoDetachKernelDriver)\<close> resolves to
  (\<open>None\<close> when it throws).
\<close>

record Backend =
  getDeviceList :: "usb_Device list"
  createInstance :: "usb_Device \<Rightarrow> bool option \<Rightarrow> USBDevice option"

text \<open>
  The object state of \<^verbatim>\<open>class WebUSB\<close>. \<open>knownDevices\<close> is the JavaScript
  \<^verbatim>\<open>Map\<close> in insertion order; \<open>authorisedDevices\<close> is the \<^verbatim>\<open>Set\<close> of snapshot
  objects in insertion order (every snapshot is a fresh object, so \<^verbatim>\<open>add\<close> always
  appends); \<open>listeners\<close> are the emitter's listeners per channel, named by numbers;
  \<open>emitted\<close> collects the events handed to \<^verbatim>\<open>emitter.emit\<close>.
\<close>

record WebUSB =
  options :: USBOptions
  knownDevices :: "(usb_Device \<times> USBDevice) list"
  authorisedDevices :: "USBDeviceFilter list"
  listeners :: "event_type \<Rightarrow> nat list"
  backendLog :: "backend_call list"
  emitted :: "USBConnectionEvent list"

definition WebUSB_new :: "USBOptions \<Rightarrow> WebUSB" where
  "WebUSB_new opts =
     \<lparr>options = opts, knownDevices = [], authorisedDevices = [],
      listeners = (\<lambda>_. []), backendLog = [], emitted = []\<rparr>"

subsection \<open>JavaScript truthiness and the Map\<close>

text \<open>\<^verbatim>\<open>if (x)\<close> on an optional number: \<^verbatim>\<open>undefined\<close> and \<open>0\<close> are falsy.\<close>

definition truthy :: "nat option \<Rightarrow> bool" where
  "truthy x = (case x of None \<Rightarrow> False | Some n \<Rightarrow> n \<noteq> 0)"

text \<open>\<^verbatim>\<open>x && x !== v\<close> on an optional number \<open>x\<close> and a number \<open>v\<close>.\<close>

definition differs :: "nat option \<Rightarrow> nat \<Rightarrow> bool" where
  "differs x v = (case x of None \<Rightarrow> False | Some n \<Rightarrow> n \<noteq> 0 \<and> n \<noteq> v)"

text \<open>\<^verbatim>\<open>x && x !== v\<close> on an optional string \<open>x\<close> (the empty string is falsy) and an
  optional string \<open>v\<close>.\<close>

definition differsStr :: "string option \<Rightarrow> string option \<Rightarrow> bool" where
  "differsStr x v = (case x of None \<Rightarrow> False | Some t \<Rightarrow> t \<noteq> [] \<and> Some t \<noteq> v)"

text \<open>\<^verbatim>\<open>Map.prototype.set\<close>: an existing key keeps its place, a new key goes last.\<close>

fun Map_set :: "'k \<Rightarrow> 'v \<Rightarrow> ('k \<times> 'v) list \<Rightarrow> ('k \<times> 'v) list" where
  "Map_set k v [] = [(k, v)]"
| "Map_set k v (p # ps) = (if fst p = k then (k, v) # ps else p # Map_set k v ps)"

subsection \<open>quickFilter and filterDevice\<close>

definition quickFilter :: "usb_Device list \<Rightarrow> USBDeviceFilter list option \<Rightarrow> usb_Device list" where
  "quickFilter devices preFilters =
     (case preFilters of
        None \<Rightarrow> devices
      | Some fs \<Rightarrow>
          if fs = [] then devices
          else filter (\<lambda>device. list_ex (\<lambda>f.
                  if differs (vendorId f) (idVendor device) then False
                  else if differs (productId f) (idProduct device) then False
                  else True) fs) devices)"

text \<open>The callback of \<^verbatim>\<open>interfaces.some\<close> in \<^verbatim>\<open>filterDevice\<close>.\<close>

definition ifaceMatches :: "USBDeviceFilter \<Rightarrow> USBInterface \<Rightarrow> bool" where
  "ifaceMatches f iface =
     (if differs (classCode f) (interfaceClass (alternate iface)) then False
      else if differs (subclassCode f) (interfaceSubclass (alternate iface)) then False
      else if differs (protocolCode f) (interfaceProtocol (alternate iface)) then False
      else True)"

text \<open>The tail of the callback of \<^verbatim>\<open>filters.some\<close>: the device-level class, subclass,
  protocol and serial number checks.\<close>

definition deviceLevelMatches :: "USBDevice \<Rightarrow> USBDeviceFilter \<Rightarrow> bool" where
  "deviceLevelMatches device f =
     (if differs (classCode f) (deviceClass device) then False
      else if differs (subclassCode f) (deviceSubclass device) then False
      else if differs (protocolCode f) (deviceProtocol device) then False
      else if differsStr (serialNumber f) (dev_serialNumber device) then False
      else True)"

text \<open>The callback of \<^verbatim>\<open>filters.some\<close> in \<^verbatim>\<open>filterDevice\<close>, with its early returns
  in the source's order.\<close>

definition filterMatches :: "USBDevice \<Rightarrow> USBDeviceFilter \<Rightarrow> bool" where
  "filterMatches device f =
     (if differs (vendorId f) (dev_vendorId device) then False
      else if differs (productId f) (dev_productId device) then False
      else if truthy (classCode f) then
        (case configuration device of
           None \<Rightarrow> False
         | Some c \<Rightarrow>
             if list_ex (ifaceMatches f) (interfaces c) then True
             else deviceLevelMatches device f)
      else deviceLevelMatches device f)"

definition filterDevice :: "USBDevice \<Rightarrow> USBDeviceFilter list option \<Rightarrow> bool" where
  "filterDevice device filters =
     (case filters of
        None \<Rightarrow> True
      | Some fs \<Rightarrow> if fs = [] then True else list_ex (filterMatches device) fs)"

subsection \<open>isAuthorisedDevice\<close>

text \<open>The snapshot \<^verbatim>\<open>requestDevice\<close> adds to \<^verbatim>\<open>authorisedDevices\<close>.\<close>

definition snapshot :: "USBDevice \<Rightarrow> USBDeviceFilter" where
  "snapshot device =
     \<lparr>vendorId = Some (dev_vendorId device), productId = Some (dev_productId device),
      classCode = Some (deviceClass device), subclassCode = Some (deviceSubclass device),
      protocolCode = Some (deviceProtocol device), serialNumber = dev_serialNumber device\<rparr>"

definition isAuthorisedDevice :: "WebUSB \<Rightarrow> USBDevice \<Rightarrow> bool" where
  "isAuthorisedDevice s device =
     (if allowAllDevices (options s) = Some True then True
      else if (case allowedDevices (options s) of
                 None \<Rightarrow> False
               | Some fs \<Rightarrow> filterDevice device (Some fs)) then True
      else list_ex (\<lambda>authorised.
             vendorId authorised = Some (dev_vendorId device)
             \<and> productId authorised = Some (dev_productId device)
             \<and> classCode authorised = Some (deviceClass device)
             \<and> subclassCode authorised = Some (deviceSubclass device)
             \<and> protocolCode authorised = Some (deviceProtocol device)
             \<and> serialNumber authorised = dev_serialNumber device) (authorisedDevices s))"

subsection \<open>getWebDevice and loadDevices\<close>

definition logCall :: "backend_call \<Rightarrow> WebUSB \<Rightarrow> WebUSB" where
  "logCall c s = s\<lparr>backendLog := backendLog s @ [c]\<rparr>"

definition getWebDevice :: "Backend \<Rightarrow> usb_Device \<Rightarrow> WebUSB \<Rightarrow> USBDevice option \<times> WebUSB" where
  "getWebDevice be device s =
     (let s3 =
        (if map_of (knownDevices s) device = None then
           (let s1 = (case deviceTimeout (options s) of
                        None \<Rightarrow> s
                      | Some t \<Rightarrow> if t \<noteq> 0 then logCall (SetTimeout device t) s else s);
                s2 = logCall (CreateInstance device (autoDetachKernelDriver (options s))) s1
            in case createInstance be device (autoDetachKernelDriver (options s)) of
                 Some webDevice \<Rightarrow> s2\<lparr>knownDevices := Map_set device webDevice (knownDevices s2)\<rparr>
               | None \<Rightarrow> s2)
         else s)
      in (map_of (knownDevices s3) device, s3))"

text \<open>The \<^verbatim>\<open>for\<close> loop of \<^verbatim>\<open>loadDevices\<close>, with \<open>refreshed\<close> the map it fills.\<close>

fun adaptAll :: "Backend \<Rightarrow> usb_Device list \<Rightarrow> (usb_Device \<times> USBDevice) list \<Rightarrow> WebUSB
    \<Rightarrow> (usb_Device \<times> USBDevice) list \<times> WebUSB" where
  "adaptAll be [] refreshed s = (refreshed, s)"
| "adaptAll be (device # devices) refreshed s =
     (case getWebDevice be device s of
        (Some webDevice, s') \<Rightarrow> adaptAll be devices (Map_set device webDevice refreshed) s'
      | (None, s') \<Rightarrow> adaptAll be devices refreshed s')"

definition loadDevices :: "Backend \<Rightarrow> USBDeviceFilter list option \<Rightarrow> WebUSB \<Rightarrow> USBDevice list \<times> WebUSB" where
  "loadDevices be preFilters s =
     (let s0 = logCall GetDeviceList s;
          devices = quickFilter (getDeviceList be) preFilters;
          (refreshed, s1) = adaptAll be devices [] s0;
          s2 = s1\<lparr>knownDevices := refreshed\<rparr>
      in (map snd (knownDevices s2), s2))"

subsection \<open>requestDevice and getDevices\<close>

definition notFoundError :: error where
  "notFoundError =
     NamedError ''Failed to execute 'requestDevice' on 'USB': No device selected.'' ''NotFoundError''"

text \<open>The \<^verbatim>\<open>forEach\<close> over the filters: the first offending filter throws.\<close>

fun checkFilters :: "USBDeviceFilter list \<Rightarrow> error option" where
  "checkFilters [] = None"
| "checkFilters (f # fs) =
     (if truthy (protocolCode f) \<and> \<not> truthy (subclassCode f)
        then Some (TypeError ''requestDevice error: subclass code is required'')
      else if truthy (subclassCode f) \<and> \<not> truthy (classCode f)
        then Some (TypeError ''requestDevice error: class code is required'')
      else checkFilters fs)"

text \<open>The \<^verbatim>\<open>try\<close> block of \<^verbatim>\<open>requestDevice\<close>, entered with a non-empty candidate
  list: without a callback the first candidate is taken.\<close>

definition selectDevice :: "USBOptions \<Rightarrow> USBDevice \<Rightarrow> USBDevice list \<Rightarrow> selection" where
  "selectDevice opts first devices =
     (case devicesFound opts of
        Some callback \<Rightarrow> callback devices
      | None \<Rightarrow> Resolved (Some first))"

definition requestDevice :: "Backend \<Rightarrow> js_options \<Rightarrow> WebUSB \<Rightarrow> (error + USBDevice) \<times> WebUSB" where
  "requestDevice be opts s =
     (case opts of
        OptionsAbsent \<Rightarrow>
          (Inl (TypeError ''requestDevice error: 1 argument required, but only 0 present''), s)
      | OptionsNotObject \<Rightarrow>
          (Inl (TypeError ''requestDevice error: parameter 1 (options) is not an object''), s)
      | OptionsObject FiltersAbsent \<Rightarrow>
          (Inl (TypeError ''requestDevice error: required member filters is undefined''), s)
      | OptionsObject FiltersNotSequence \<Rightarrow>
          (Inl (TypeError ''requestDevice error: the provided value cannot be converted to a sequence''), s)
      | OptionsObject (FiltersArray fs) \<Rightarrow>
          (case checkFilters fs of
             Some e \<Rightarrow> (Inl e, s)
           | None \<Rightarrow>
               (let (loaded, s1) = loadDevices be (Some fs) s;
                    devices = filter (\<lambda>device. filterDevice device (Some fs)) loaded
                in case devices of
                     [] \<Rightarrow> (Inl notFoundError, s1)
                   | first # _ \<Rightarrow>
                       (case selectDevice (options s1) first devices of
                          Rejected \<Rightarrow> (Inl notFoundError, s1)
                        | Resolved None \<Rightarrow> (Inl notFoundError, s1)
                        | Resolved (Some device) \<Rightarrow>
                            (Inr device,
                             s1\<lparr>authorisedDevices := authorisedDevices s1 @ [snapshot device]\<rparr>)))))"

definition getDevices :: "Backend \<Rightarrow> WebUSB \<Rightarrow> USBDevice list \<times> WebUSB" where
  "getDevices be s =
     (let preFilters = (if allowAllDevices (options s) = Some True then None
                        else allowedDevices (options s));
          (devices, s1) = loadDevices be preFilters s
      in (filter (isAuthorisedDevice s1) devices, s1))"

subsection \<open>The attach and detach callbacks\<close>

definition emit :: "event_type \<Rightarrow> USBDevice \<Rightarrow> WebUSB \<Rightarrow> WebUSB" where
  "emit t device s = s\<lparr>emitted := emitted s @ [\<lparr>ev_type = t, ev_device = device\<rparr>]\<rparr>"

definition deviceConnectCallback :: "Backend \<Rightarrow> usb_Device \<Rightarrow> WebUSB \<Rightarrow> WebUSB" where
  "deviceConnectCallback be device s =
     (case getWebDevice be device s of
        (Some webDevice, s') \<Rightarrow>
          if isAuthorisedDevice s' webDevice then emit Connect webDevice s' else s'
      | (None, s') \<Rightarrow> s')"

definition deviceDisconnectCallback :: "usb_Device \<Rightarrow> WebUSB \<Rightarrow> WebUSB" where
  "deviceDisconnectCallback device s =
     (if map_of (knownDevices s) device \<noteq> None then
        (case map_of (knownDevices s) device of
           Some webDevice \<Rightarrow>
             if isAuthorisedDevice s webDevice then emit Disconnect webDevice s else s
         | None \<Rightarrow> s)
      else s)"

subsection \<open>Listener registration\<close>

text \<open>
  The facade's emitter is Node's \<^verbatim>\<open>EventEmitter\<close>: \<^verbatim>\<open>addListener\<close> emits
  \<^verbatim>\<open>newListener\<close> before it appends the listener, and \<^verbatim>\<open>removeListener\<close> removes the
  most recently added instance of the listener, if there is one, and only then emits
  \<^verbatim>\<open>removeListener\<close>. The two handlers the constructor installs are
  \<open>onNewListener\<close> and \<open>onRemoveListener\<close>.
\<close>

definition listenerCount :: "WebUSB \<Rightarrow> event_type \<Rightarrow> nat" where
  "listenerCount s event = length (listeners s event)"

definition onNewListener :: "event_type \<Rightarrow> WebUSB \<Rightarrow> WebUSB" where
  "onNewListener event s =
     (if listenerCount s event \<noteq> 0 then s
      else case event of
             Connect \<Rightarrow> logCall (AddListener Attach) s
           | Disconnect \<Rightarrow> logCall (AddListener Detach) s)"

definition onRemoveListener :: "event_type \<Rightarrow> WebUSB \<Rightarrow> WebUSB" where
  "onRemoveListener event s =
     (if listenerCount s event \<noteq> 0 then s
      else case event of
             Connect \<Rightarrow> logCall (RemoveListener Attach) s
           | Disconnect \<Rightarrow> logCall (RemoveListener Detach) s)"

definition addEventListener :: "event_type \<Rightarrow> nat \<Rightarrow> WebUSB \<Rightarrow> WebUSB" where
  "addEventListener t listener s =
     (let s1 = onNewListener t s
      in s1\<lparr>listeners := (listeners s1)(t := listeners s1 t @ [listener])\<rparr>)"

definition removeLast :: "'a \<Rightarrow> 'a list \<Rightarrow> 'a list" where
  "removeLast x xs = rev (remove1 x (rev xs))"

definition removeEventListener :: "event_type \<Rightarrow> nat \<Rightarrow> WebUSB \<Rightarrow> WebUSB" where
  "removeEventListener t listener s =
     (if listener \<in> set (listeners s t) then
        onRemoveListener t (s\<lparr>listeners := (listeners s)(t := removeLast listener (listeners s t))\<rparr>)
      else s)"

text \<open>A sequence of registration calls, run from left to right.\<close>

datatype listener_call = AddEventListener event_type nat | RemoveEventListener event_type nat

fun call :: "listener_call \<Rightarrow> WebUSB \<Rightarrow> WebUSB" where
  "call (AddEventListener t listener) s = addEventListener t listener s"
| "call (RemoveEventListener t listener) s = removeEventListener t listener s"

definition calls :: "listener_call list \<Rightarrow> WebUSB \<Rightarrow> WebUSB" where
  "calls cs s = fold call cs s"

text \<open>
  How many registrations of the facade's callback the backend holds for a raw event after
  a trace: \<^verbatim>\<open>usb.addListener\<close> adds one, \<^verbatim>\<open>usb.removeListener\<close> takes one away if
  there is one.
\<close>

definition registered :: "usb_event \<Rightarrow> backend_call list \<Rightarrow> nat" where
  "registered e log =
     foldl (\<lambda>n c. if c = AddListener e then n + 1
                   else if c = RemoveListener e then n - 1 else n) 0 log"

text \<open>The subscription invariant of the two channels: the backend holds one registration
  of the facade's callback while the channel has listeners, and none otherwise.\<close>

definition subscription_inv :: "WebUSB \<Rightarrow> bool" where
  "subscription_inv s =
     (registered Attach (backendLog s) = (if listeners s Connect = [] then 0 else 1)
      \<and> registered Detach (backendLog s) = (if listeners s Disconnect = [] then 0 else 1))"

subsection \<open>The candidate list, and the matching rules the claims speak of\<close>

text \<open>The variable \<^verbatim>\<open>devices\<close> of \<^verbatim>\<open>requestDevice\<close> after its \<^verbatim>\<open>filter\<close> call: the
  devices the selection step is offered.\<close>

definition candidates :: "Backend \<Rightarrow> USBDeviceFilter list \<Rightarrow> WebUSB \<Rightarrow> USBDevice list" where
  "candidates be fs s =
     filter (\<lambda>device. filterDevice device (Some fs)) (fst (loadDevices be (Some fs) s))"

text \<open>The interfaces of a device; a device without a configuration has none.\<close>

definition deviceInterfaces :: "USBDevice \<Rightarrow> USBInterface list" where
  "deviceInterfaces device = (case configuration device of None \<Rightarrow> [] | Some c \<Rightarrow> interfaces c)"

text \<open>A filter's class, subclass and protocol constraint, read on three given values.\<close>

definition classFieldsAgree :: "USBDeviceFilter \<Rightarrow> nat \<Rightarrow> nat \<Rightarrow> nat \<Rightarrow> bool" where
  "classFieldsAgree f c sc p =
     (\<not> differs (classCode f) c \<and> \<not> differs (subclassCode f) sc \<and> \<not> differs (protocolCode f) p)"

text \<open>
  The matching rule in the specification's words: vendorId, productId and serialNumber,
  when specified, equal the device's fields, and the class constraint is satisfied either
  by the device's own fields or by some interface's active alternate setting. A field
  counts as specified when it is truthy.
\<close>

definition spec_filterMatches :: "USBDevice \<Rightarrow> USBDeviceFilter \<Rightarrow> bool" where
  "spec_filterMatches device f =
     (\<not> differs (vendorId f) (dev_vendorId device)
      \<and> \<not> differs (productId f) (dev_productId device)
      \<and> \<not> differsStr (serialNumber f) (dev_serialNumber device)
      \<and> (classFieldsAgree f (deviceClass device) (deviceSubclass device) (deviceProtocol device)
         \<or> list_ex (\<lambda>iface. classFieldsAgree f (interfaceClass (alternate iface))
                       (interfaceSubclass (alternate iface)) (interfaceProtocol (alternate iface)))
              (deviceInterfaces device)))"

text \<open>
  The rule with the two guards of the source: the interfaces are consulted only for a
  filter with a class code, and such a filter needs a device that has a configuration.
\<close>

definition guarded_filterMatches :: "USBDevice \<Rightarrow> USBDeviceFilter \<Rightarrow> bool" where
  "guarded_filterMatches device f =
     (\<not> differs (vendorId f) (dev_vendorId device)
      \<and> \<not> differs (productId f) (dev_productId device)
      \<and> \<not> differsStr (serialNumber f) (dev_serialNumber device)
      \<and> (if truthy (classCode f)
         then configuration device \<noteq> None
              \<and> (classFieldsAgree f (deviceClass device) (deviceSubclass device) (deviceProtocol device)
                 \<or> list_ex (\<lambda>iface. classFieldsAgree f (interfaceClass (alternate iface))
                               (interfaceSubclass (alternate iface)) (interfaceProtocol (alternate iface)))
                      (deviceInterfaces device))
         else classFieldsAgree f (deviceClass device) (deviceSubclass device) (deviceProtocol device)))"

text \<open>
  The inputs on which \<^verbatim>\<open>filterDevice\<close> returns through \<^verbatim>\<open>if (match) return true\<close>
  although the filter's serial number differs from the device's.
\<close>

definition serialSkipped :: "USBDevice \<Rightarrow> USBDeviceFilter \<Rightarrow> bool" where
  "serialSkipped device f =
     (\<not> differs (vendorId f) (dev_vendorId device)
      \<and> \<not> differs (productId f) (dev_productId device)
      \<and> truthy (classCode f)
      \<and> list_ex (ifaceMatches f) (deviceInterfaces device)
      \<and> differsStr (serialNumber f) (dev_serialNumber device))"

text \<open>A filter with every falsy member (\<open>0\<close>, the empty string) left out.\<close>

definition unsetFalsy :: "USBDeviceFilter \<Rightarrow> USBDeviceFilter" where
  "unsetFalsy f =
     \<lparr>vendorId = (if truthy (vendorId f) then vendorId f else None),
      productId = (if truthy (productId f) then productId f else None),
      classCode = (if truthy (classCode f) then classCode f else None),
      subclassCode = (if truthy (subclassCode f) then subclassCode f else None),
      protocolCode = (if truthy (protocolCode f) then protocolCode f else None),
      serialNumber = (if serialNumber f = Some [] then None else serialNumber f)\<rparr>"

subsection \<open>Concrete devices, backends and options\<close>

definition rawA :: usb_Device where
  "rawA = \<lparr>handle = 1, idVendor = 0x1234, idProduct = 0x5678\<rparr>"

definition rawB :: usb_Device where
  "rawB = \<lparr>handle = 2, idVendor = 0x1111, idProduct = 0x2222\<rparr>"

text \<open>A composite device: class 0 at the device level, one HID interface.\<close>

definition devA :: USBDevice where
  "devA = \<lparr>dev_vendorId = 0x1234, dev_productId = 0x5678, deviceClass = 0, deviceSubclass = 0,
     deviceProtocol = 0, dev_serialNumber = Some ''A1'',
     configuration = Some \<lparr>interfaces = [\<lparr>alternate =
        \<lparr>interfaceClass = 3, interfaceSubclass = 1, interfaceProtocol = 1\<rparr>\<rparr>]\<rparr>\<rparr>"

text \<open>A vendor-specific device that has no configuration selected.\<close>

definition devB :: USBDevice where
  "devB = \<lparr>dev_vendorId = 0x1111, dev_productId = 0x2222, deviceClass = 0xFF, deviceSubclass = 0,
     deviceProtocol = 0, dev_serialNumber = None, configuration = None\<rparr>"

definition backendAB :: Backend where
  "backendAB = \<lparr>getDeviceList = [rawA, rawB],
     createInstance = (\<lambda>device _. if device = rawA then Some devA
                                    else if device = rawB then Some devB else None)\<rparr>"

definition noFilter :: USBDeviceFilter where
  "noFilter = \<lparr>vendorId = None, productId = None, classCode = None, subclassCode = None,
     protocolCode = None, serialNumber = None\<rparr>"

definition noOptions :: USBOptions where
  "noOptions = \<lparr>devicesFound = None, allowedDevices = None, allowAllDevices = None,
     deviceTimeout = None, autoDetachKernelDriver = None\<rparr>"

section \<open>Properties\<close>

lemmas example_defs = rawA_def rawB_def devA_def devB_def backendAB_def noFilter_def noOptions_def

lemmas run_defs = requestDevice_def getDevices_def loadDevices_def getWebDevice_def
  quickFilter_def filterDevice_def filterMatches_def deviceLevelMatches_def ifaceMatches_def
  isAuthorisedDevice_def snapshot_def selectDevice_def logCall_def WebUSB_new_def
  truthy_def differs_def differsStr_def Let_def

subsection \<open>The Map\<close>

lemma map_of_Map_set: "map_of (Map_set k v m) = (map_of m)(k \<mapsto> v)"
  by (induction m) (auto simp: fun_eq_iff)

lemma keys_Map_set: "fst ` set (Map_set k v m) = insert k (fst ` set m)"
  by (induction m) auto

lemma distinct_Map_set: "distinct (map fst m) \<Longrightarrow> distinct (map fst (Map_set k v m))"
  by (induction m) (auto simp: keys_Map_set)

subsection \<open>What getWebDevice and loadDevices change\<close>

lemma getWebDevice_fst:
  "fst (getWebDevice be d s) =
     (case map_of (knownDevices s) d of
        Some w \<Rightarrow> Some w
      | None \<Rightarrow> createInstance be d (autoDetachKernelDriver (options s)))"
  by (auto simp: getWebDevice_def Let_def logCall_def map_of_Map_set split: option.splits)

lemma getWebDevice_known:
  "map_of (knownDevices (snd (getWebDevice be d s))) =
     (\<lambda>x. if x = d then fst (getWebDevice be d s) else map_of (knownDevices s) x)"
  by (auto simp: getWebDevice_def Let_def logCall_def map_of_Map_set fun_eq_iff split: option.splits)

lemma getWebDevice_options: "options (snd (getWebDevice be d s)) = options s"
  by (auto simp: getWebDevice_def Let_def logCall_def split: option.splits)

lemma getWebDevice_authorised: "authorisedDevices (snd (getWebDevice be d s)) = authorisedDevices s"
  by (auto simp: getWebDevice_def Let_def logCall_def split: option.splits)

lemma getWebDevice_logCall: "fst (getWebDevice be x (logCall c s)) = fst (getWebDevice be x s)"
  by (simp add: getWebDevice_fst logCall_def split: option.splits)

text \<open>Looking a second device up does not change what a lookup yields: a cached device
  stays cached, and a failed adaptation leaves no entry.\<close>

lemma getWebDevice_stable:
  "fst (getWebDevice be x (snd (getWebDevice be d s))) = fst (getWebDevice be x s)"
proof -
  let ?s' = "snd (getWebDevice be d s)"
  have "fst (getWebDevice be x ?s') =
      (case map_of (knownDevices ?s') x of
         Some w \<Rightarrow> Some w
       | None \<Rightarrow> createInstance be x (autoDetachKernelDriver (options s)))"
    by (simp only: getWebDevice_fst getWebDevice_options)
  also have "\<dots> = fst (getWebDevice be x s)"
    by (simp add: getWebDevice_known) (simp add: getWebDevice_fst split: option.splits)
  finally show ?thesis .
qed

lemma adaptAll_options: "options (snd (adaptAll be ds r s)) = options s"
proof (induction ds arbitrary: r s)
  case Nil
  then show ?case by simp
next
  case (Cons d ds)
  obtain o' s' where g: "getWebDevice be d s = (o', s')" by (cases "getWebDevice be d s")
  have "options s' = options s"
    using getWebDevice_options [of be d s] g by simp
  then show ?case using g Cons.IH by (cases o') simp_all
qed

lemma adaptAll_authorised: "authorisedDevices (snd (adaptAll be ds r s)) = authorisedDevices s"
proof (induction ds arbitrary: r s)
  case Nil
  then show ?case by simp
next
  case (Cons d ds)
  obtain o' s' where g: "getWebDevice be d s = (o', s')" by (cases "getWebDevice be d s")
  have "authorisedDevices s' = authorisedDevices s"
    using getWebDevice_authorised [of be d s] g by simp
  then show ?case using g Cons.IH by (cases o') simp_all
qed

lemma adaptAll_distinct:
  "distinct (map fst r) \<Longrightarrow> distinct (map fst (fst (adaptAll be ds r s)))"
  by (induction ds arbitrary: r s) (auto simp: distinct_Map_set split: prod.splits option.splits)

lemma adaptAll_map_of:
  "map_of (fst (adaptAll be ds r s)) x =
     (if x \<in> set ds then (case fst (getWebDevice be x s) of Some w \<Rightarrow> Some w | None \<Rightarrow> map_of r x)
      else map_of r x)"
proof (induction ds arbitrary: r s)
  case Nil
  then show ?case by simp
next
  case (Cons d ds)
  obtain o' s' where g: "getWebDevice be d s = (o', s')" by (cases "getWebDevice be d s")
  have st: "fst (getWebDevice be x s') = fst (getWebDevice be x s)"
    using getWebDevice_stable [of be x d s] g by simp
  show ?case
  proof (cases o')
    case None
    then show ?thesis using g st Cons.IH [of r s'] by (auto split: option.splits)
  next
    case (Some w)
    then show ?thesis using g st Cons.IH [of "Map_set d w r" s']
      by (auto simp: map_of_Map_set split: option.splits)
  qed
qed

lemma loadDevices_options: "options (snd (loadDevices be pf s)) = options s"
  using adaptAll_options [of be "quickFilter (getDeviceList be) pf" "[]" "logCall GetDeviceList s"]
  by (simp add: loadDevices_def Let_def logCall_def case_prod_beta)

lemma loadDevices_authorised: "authorisedDevices (snd (loadDevices be pf s)) = authorisedDevices s"
  using adaptAll_authorised [of be "quickFilter (getDeviceList be) pf" "[]" "logCall GetDeviceList s"]
  by (simp add: loadDevices_def Let_def logCall_def case_prod_beta)

lemma loadDevices_set:
  "set (fst (loadDevices be pf s)) =
     {w. \<exists>d \<in> set (quickFilter (getDeviceList be) pf). fst (getWebDevice be d s) = Some w}"
proof -
  let ?ds = "quickFilter (getDeviceList be) pf"
  let ?r = "fst (adaptAll be ?ds [] (logCall GetDeviceList s))"
  have d: "distinct (map fst ?r)" by (rule adaptAll_distinct) simp
  have "fst (loadDevices be pf s) = map snd ?r"
    by (simp add: loadDevices_def Let_def case_prod_beta)
  then have "set (fst (loadDevices be pf s)) = ran (map_of ?r)"
    using ran_distinct [OF d] by simp
  also have "\<dots> = {w. \<exists>d \<in> set ?ds. fst (getWebDevice be d s) = Some w}"
    by (auto simp: ran_def adaptAll_map_of getWebDevice_logCall split: if_splits option.splits)
  finally show ?thesis .
qed

subsection \<open>Listener registration\<close>

lemma registered_snoc:
  "registered e (log @ [c]) =
     (if c = AddListener e then registered e log + 1
      else if c = RemoveListener e then registered e log - 1 else registered e log)"
  by (simp add: registered_def)

lemma removeLast_Nil_iff:
  assumes "x \<in> set xs"
  shows "(removeLast x xs = []) = (xs = [x])"
proof -
  have "length (removeLast x xs) = length xs - 1"
    using assms by (simp add: removeLast_def length_remove1)
  then have "(removeLast x xs = []) = (length xs = 1)"
    using assms by (cases xs) auto
  also have "\<dots> = (xs = [x])"
    using assms by (cases xs) auto
  finally show ?thesis .
qed

lemma inv_new: "subscription_inv (WebUSB_new opts)"
  by (simp add: subscription_inv_def WebUSB_new_def registered_def)

lemma inv_add: "subscription_inv s \<Longrightarrow> subscription_inv (addEventListener t l s)"
  by (cases t) (auto simp: subscription_inv_def addEventListener_def onNewListener_def
        listenerCount_def logCall_def registered_snoc Let_def)

lemma inv_remove: "subscription_inv s \<Longrightarrow> subscription_inv (removeEventListener t l s)"
  by (cases t) (auto simp: subscription_inv_def removeEventListener_def onRemoveListener_def
        listenerCount_def logCall_def registered_snoc Let_def removeLast_Nil_iff)

lemma inv_calls: "subscription_inv s \<Longrightarrow> subscription_inv (calls cs s)"
  unfolding calls_def
proof (induction cs arbitrary: s)
  case Nil
  then show ?case by simp
next
  case (Cons c cs)
  then show ?case by (cases c) (simp_all add: inv_add inv_remove)
qed

subsection \<open>Filters\<close>

lemma ifaceMatches_agree:
  "ifaceMatches f iface = classFieldsAgree f (interfaceClass (alternate iface))
      (interfaceSubclass (alternate iface)) (interfaceProtocol (alternate iface))"
  by (simp add: ifaceMatches_def classFieldsAgree_def)

lemma deviceLevelMatches_agree:
  "deviceLevelMatches device f =
     (classFieldsAgree f (deviceClass device) (deviceSubclass device) (deviceProtocol device)
      \<and> \<not> differsStr (serialNumber f) (dev_serialNumber device))"
  by (simp add: deviceLevelMatches_def classFieldsAgree_def)

lemma filterMatches_guarded:
  "\<not> serialSkipped device f \<Longrightarrow> filterMatches device f = guarded_filterMatches device f"
  by (auto simp: filterMatches_def guarded_filterMatches_def serialSkipped_def deviceInterfaces_def
      deviceLevelMatches_agree ifaceMatches_agree [abs_def] split: option.splits)

lemma checkFilters_offending:
  assumes "f \<in> set fs"
    and "(truthy (protocolCode f) \<and> \<not> truthy (subclassCode f))
         \<or> (truthy (subclassCode f) \<and> \<not> truthy (classCode f))"
  shows "\<exists>msg. checkFilters fs = Some (TypeError msg)"
  using assms by (induction fs) auto

lemma unsetFalsy_fields:
  "differs (vendorId (unsetFalsy f)) v = differs (vendorId f) v"
  "differs (productId (unsetFalsy f)) v = differs (productId f) v"
  "differs (classCode (unsetFalsy f)) v = differs (classCode f) v"
  "differs (subclassCode (unsetFalsy f)) v = differs (subclassCode f) v"
  "differs (protocolCode (unsetFalsy f)) v = differs (protocolCode f) v"
  "differsStr (serialNumber (unsetFalsy f)) w = differsStr (serialNumber f) w"
  "truthy (classCode (unsetFalsy f)) = truthy (classCode f)"
  "truthy (subclassCode (unsetFalsy f)) = truthy (subclassCode f)"
  "truthy (protocolCode (unsetFalsy f)) = truthy (protocolCode f)"
  by (simp_all add: unsetFalsy_def differs_def differsStr_def truthy_def split: option.splits)

lemma ifaceMatches_unsetFalsy: "ifaceMatches (unsetFalsy f) = ifaceMatches f"
  by (simp add: fun_eq_iff ifaceMatches_def unsetFalsy_fields)

lemma filterMatches_unsetFalsy: "filterMatches device (unsetFalsy f) = filterMatches device f"
  by (simp add: filterMatches_def deviceLevelMatches_def ifaceMatches_unsetFalsy unsetFalsy_fields
      cong: option.case_cong)

lemma filterDevice_unsetFalsy:
  "filterDevice device (Some (map unsetFalsy fs)) = filterDevice device (Some fs)"
  by (simp add: filterDevice_def list_ex_iff filterMatches_unsetFalsy)

lemma quickFilter_unsetFalsy:
  "quickFilter devices (Some (map unsetFalsy fs)) = quickFilter devices (Some fs)"
  by (simp add: quickFilter_def list_ex_iff unsetFalsy_fields)

lemma checkFilters_unsetFalsy: "checkFilters (map unsetFalsy fs) = checkFilters fs"
  by (induction fs) (simp_all add: unsetFalsy_fields)

text \<open>The early return on an interface match skips the serial number check: the filter
  \<^verbatim>\<open>{classCode: 3, serialNumber: 'X9'}\<close> matches device A, whose serial number is
  \<^verbatim>\<open>'A1'\<close>.\<close>

lemma filterDevice_skips_serial_example:
  "differsStr (serialNumber (noFilter\<lparr>classCode := Some 3, serialNumber := Some ''X9''\<rparr>))
     (dev_serialNumber devA)
   \<and> filterDevice devA (Some [noFilter\<lparr>classCode := Some 3, serialNumber := Some ''X9''\<rparr>])"
  by (simp add: run_defs example_defs)

subsection \<open>A requested device in later enumerations\<close>

lemma quickFilter_subset: "set (quickFilter ds pf) \<subseteq> set ds"
  by (auto simp: quickFilter_def split: option.splits)

lemma loadDevices_known:
  "map_of (knownDevices (snd (loadDevices be pf s))) x =
     (if x \<in> set (quickFilter (getDeviceList be) pf) then fst (getWebDevice be x s) else None)"
  by (simp add: loadDevices_def Let_def case_prod_beta adaptAll_map_of getWebDevice_logCall
      split: option.splits)

lemma loadDevices_cached:
  assumes "w \<in> set (fst (loadDevices be pf s))"
  shows "\<exists>raw \<in> set (getDeviceList be). map_of (knownDevices (snd (loadDevices be pf s))) raw = Some w"
proof -
  obtain raw where r: "raw \<in> set (quickFilter (getDeviceList be) pf)"
      and g: "fst (getWebDevice be raw s) = Some w"
    using assms by (auto simp: loadDevices_set)
  then have "map_of (knownDevices (snd (loadDevices be pf s))) raw = Some w"
    by (simp add: loadDevices_known)
  then show ?thesis using r quickFilter_subset by blast
qed

lemma isAuthorisedDevice_snapshot:
  assumes "snapshot d \<in> set (authorisedDevices s)"
  shows "isAuthorisedDevice s d"
proof -
  have "\<exists>authorised \<in> set (authorisedDevices s).
          vendorId authorised = Some (dev_vendorId d)
          \<and> productId authorised = Some (dev_productId d)
          \<and> classCode authorised = Some (deviceClass d)
          \<and> subclassCode authorised = Some (deviceSubclass d)
          \<and> protocolCode authorised = Some (deviceProtocol d)
          \<and> serialNumber authorised = dev_serialNumber d"
    by (rule bexI [OF _ assms]) (simp add: snapshot_def)
  then show ?thesis by (simp add: isAuthorisedDevice_def list_ex_iff)
qed

text \<open>
  Where the pre-filter of \<^verbatim>\<open>getDevices\<close> lets every device through (allow-all, or no
  \<^verbatim>\<open>allowedDevices\<close>, or an empty list), a device that \<^verbatim>\<open>requestDevice\<close> returned by
  its default selection is in the result of the \<^verbatim>\<open>getDevices\<close> call that follows.
\<close>

lemma requested_device_listed:
  assumes ok: "requestDevice be opts s = (Inr d, s1)"
    and nocb: "devicesFound (options s) = None"
    and pre: "allowAllDevices (options s) = Some True \<or> allowedDevices (options s) = None
              \<or> allowedDevices (options s) = Some []"
  shows "d \<in> set (fst (getDevices be s1))"
proof -
  from ok obtain fs where opts: "opts = OptionsObject (FiltersArray fs)"
      and chk: "checkFilters fs = None"
    by (auto simp: requestDevice_def split: js_options.splits js_filters.splits option.splits)
  let ?s0 = "snd (loadDevices be (Some fs) s)"
  let ?loaded = "fst (loadDevices be (Some fs) s)"
  have o0: "options ?s0 = options s" by (rule loadDevices_options)
  from ok opts chk nocb o0
  obtain rest where c: "filter (\<lambda>device. filterDevice device (Some fs)) ?loaded = d # rest"
    and s1: "s1 = ?s0\<lparr>authorisedDevices := authorisedDevices ?s0 @ [snapshot d]\<rparr>"
    by (auto simp: requestDevice_def Let_def case_prod_beta selectDevice_def split: list.splits)
  have "d \<in> set (filter (\<lambda>device. filterDevice device (Some fs)) ?loaded)"
    by (simp add: c)
  then have d: "d \<in> set ?loaded" by simp
  from loadDevices_cached [OF d] obtain raw where raw: "raw \<in> set (getDeviceList be)"
      and known: "map_of (knownDevices ?s0) raw = Some d"
    by blast
  let ?pf = "if allowAllDevices (options s1) = Some True then None else allowedDevices (options s1)"
  have o1: "options s1 = options s" using s1 o0 by simp
  have q: "quickFilter (getDeviceList be) ?pf = getDeviceList be"
    using pre o1 by (auto simp: quickFilter_def)
  have "fst (getWebDevice be raw s1) = Some d"
    using known s1 by (simp add: getWebDevice_fst)
  then have l: "d \<in> set (fst (loadDevices be ?pf s1))"
    using raw q by (auto simp: loadDevices_set)
  have "snapshot d \<in> set (authorisedDevices (snd (loadDevices be ?pf s1)))"
    using s1 by (simp add: loadDevices_authorised)
  then have "isAuthorisedDevice (snd (loadDevices be ?pf s1)) d"
    by (rule isAuthorisedDevice_snapshot)
  then show ?thesis using l by (simp add: getDevices_def Let_def case_prod_beta)
qed

subsection \<open>Claims\<close>

text \<open>
  C5. After any sequence of \<^verbatim>\<open>addEventListener\<close> and \<^verbatim>\<open>removeEventListener\<close> calls on a
  fresh facade, the backend holds exactly one attach registration when the connect channel
  has listeners and none when it has no listener. Adding a connect listener raises the
  listener count by one and performs one backend attach subscription when the count was
  zero and none otherwise. Removing a registered connect listener lowers the count by one,
  and removing an unregistered one changes nothing; the removal performs one backend
  unsubscription when it takes the count from positive to zero, that is when the listener
  removed was the only one, and none otherwise.
\<close>

theorem connect_subscription_follows_listeners:
  "(let s = calls cs (WebUSB_new opts) in
      registered Attach (backendLog s) = (if listenerCount s Connect = 0 then 0 else 1)
      \<and> backendLog (addEventListener Connect l s) =
          backendLog s @ (if listenerCount s Connect = 0 then [AddListener Attach] else [])
      \<and> listenerCount (addEventListener Connect l s) Connect = listenerCount s Connect + 1
      \<and> backendLog (removeEventListener Connect l s) =
          backendLog s @ (if 0 < listenerCount s Connect
                             \<and> listenerCount (removeEventListener Connect l s) Connect = 0
                          then [RemoveListener Attach] else [])
      \<and> backendLog (removeEventListener Connect l s) =
          backendLog s @ (if listeners s Connect = [l] then [RemoveListener Attach] else [])
      \<and> (if l \<in> set (listeners s Connect)
         then listenerCount (removeEventListener Connect l s) Connect = listenerCount s Connect - 1
         else removeEventListener Connect l s = s))"
proof -
  let ?s = "calls cs (WebUSB_new opts)"
  have "subscription_inv ?s" by (rule inv_calls) (rule inv_new)
  then have a: "registered Attach (backendLog ?s) = (if listenerCount ?s Connect = 0 then 0 else 1)"
    by (simp add: subscription_inv_def listenerCount_def)
  have b: "backendLog (addEventListener Connect l ?s) =
          backendLog ?s @ (if listenerCount ?s Connect = 0 then [AddListener Attach] else [])"
    by (simp add: addEventListener_def onNewListener_def logCall_def Let_def)
  have b': "listenerCount (addEventListener Connect l ?s) Connect = listenerCount ?s Connect + 1"
    by (simp add: addEventListener_def onNewListener_def logCall_def Let_def listenerCount_def)
  have c: "backendLog (removeEventListener Connect l ?s) =
          backendLog ?s @ (if 0 < listenerCount ?s Connect
                             \<and> listenerCount (removeEventListener Connect l ?s) Connect = 0
                          then [RemoveListener Attach] else [])"
    by (auto simp: removeEventListener_def onRemoveListener_def logCall_def listenerCount_def)
  have c': "backendLog (removeEventListener Connect l ?s) =
          backendLog ?s @ (if listeners ?s Connect = [l] then [RemoveListener Attach] else [])"
    by (auto simp: removeEventListener_def onRemoveListener_def logCall_def listenerCount_def
        removeLast_Nil_iff)
  have d: "listenerCount (removeEventListener Connect l ?s) Connect = listenerCount ?s Connect - 1"
    if "l \<in> set (listeners ?s Connect)"
    using that
    by (simp add: removeEventListener_def onRemoveListener_def logCall_def listenerCount_def
        removeLast_def length_remove1)
  have e: "removeEventListener Connect l ?s = ?s" if "l \<notin> set (listeners ?s Connect)"
    using that by (simp add: removeEventListener_def)
  show ?thesis using a b b' c c' d e by (simp add: Let_def)
qed

theorem connect_subscription_follows_listeners_witness:
  "listeners (calls [AddEventListener Connect 1, AddEventListener Connect 2,
       RemoveEventListener Connect 2] (WebUSB_new noOptions)) Connect = [1]
   \<and> backendLog (calls [AddEventListener Connect 1, AddEventListener Connect 2,
       RemoveEventListener Connect 2] (WebUSB_new noOptions)) = [AddListener Attach]
   \<and> registered Attach (backendLog (calls [AddEventListener Connect 1, AddEventListener Connect 2,
       RemoveEventListener Connect 2] (WebUSB_new noOptions))) = 1
   \<and> backendLog (removeEventListener Connect 1 (calls [AddEventListener Connect 1,
       AddEventListener Connect 2, RemoveEventListener Connect 2] (WebUSB_new noOptions)))
      = [AddListener Attach, RemoveListener Attach]
   \<and> listenerCount (removeEventListener Connect 1 (calls [AddEventListener Connect 1,
       AddEventListener Connect 2, RemoveEventListener Connect 2] (WebUSB_new noOptions))) Connect
      = 0"
proof -
  let ?s = "calls [AddEventListener Connect 1, AddEventListener Connect 2,
       RemoveEventListener Connect 2] (WebUSB_new noOptions)"
  have a: "listeners ?s Connect = [1]"
    by (simp add: calls_def addEventListener_def removeEventListener_def onNewListener_def
        onRemoveListener_def listenerCount_def logCall_def removeLast_def WebUSB_new_def Let_def)
  have b: "backendLog ?s = [AddListener Attach]"
    by (simp add: calls_def addEventListener_def removeEventListener_def onNewListener_def
        onRemoveListener_def listenerCount_def logCall_def removeLast_def WebUSB_new_def Let_def)
  show ?thesis
    using a b
      connect_subscription_follows_listeners [of "[AddEventListener Connect 1,
        AddEventListener Connect 2, RemoveEventListener Connect 2]" noOptions 1]
    by (simp add: Let_def listenerCount_def)
qed

text \<open>
  C7. When \<^verbatim>\<open>allowAllDevices\<close> is true, \<^verbatim>\<open>getDevices\<close> returns exactly the devices that
  \<^verbatim>\<open>getWebDevice\<close> yields for the raw devices the backend enumerates (a cached device or
  a successful adaptation), whatever \<^verbatim>\<open>allowedDevices\<close> and the authorised set hold.
\<close>

theorem getDevices_allowAll:
  assumes "allowAllDevices (options s) = Some True"
  shows "set (fst (getDevices be s)) =
           {w. \<exists>d \<in> set (getDeviceList be). fst (getWebDevice be d s) = Some w}"
proof -
  have "isAuthorisedDevice (snd (loadDevices be None s)) = (\<lambda>_. True)"
    using assms by (simp add: isAuthorisedDevice_def loadDevices_options fun_eq_iff)
  then have "fst (getDevices be s) = fst (loadDevices be None s)"
    using assms by (simp add: getDevices_def Let_def case_prod_beta)
  then show ?thesis by (simp add: loadDevices_set quickFilter_def)
qed

theorem getDevices_allowAll_witness:
  "allowAllDevices (options (WebUSB_new (noOptions\<lparr>allowAllDevices := Some True,
       allowedDevices := Some [noFilter\<lparr>vendorId := Some 0x9999\<rparr>]\<rparr>))) = Some True
   \<and> set (fst (getDevices backendAB (WebUSB_new (noOptions\<lparr>allowAllDevices := Some True,
       allowedDevices := Some [noFilter\<lparr>vendorId := Some 0x9999\<rparr>]\<rparr>)))) = {devA, devB}"
proof -
  let ?s = "WebUSB_new (noOptions\<lparr>allowAllDevices := Some True,
       allowedDevices := Some [noFilter\<lparr>vendorId := Some 0x9999\<rparr>]\<rparr>)"
  have h: "allowAllDevices (options ?s) = Some True"
    by (simp add: WebUSB_new_def noOptions_def)
  have "{w. \<exists>d \<in> set (getDeviceList backendAB). fst (getWebDevice backendAB d ?s) = Some w}
          = {devA, devB}"
    by (auto simp: getWebDevice_fst WebUSB_new_def example_defs)
  then show ?thesis using h getDevices_allowAll [OF h, of backendAB] by simp
qed

text \<open>
  C8. Filtering a device list with \<^verbatim>\<open>filterDevice\<close> is idempotent: filtering the filtered
  list again with the same filters changes nothing.
\<close>

theorem filterDevice_idempotent:
  "filter (\<lambda>device. filterDevice device fs) (filter (\<lambda>device. filterDevice device fs) ds) =
   filter (\<lambda>device. filterDevice device fs) ds"
  by simp

text \<open>
  C1. With \<^verbatim>\<open>allowedDevices = [{vendorId: 0x1111}]\<close> and a backend that enumerates the
  devices A (vendor 0x1234) and B (vendor 0x1111), \<^verbatim>\<open>requestDevice\<close> with the filter
  \<^verbatim>\<open>{vendorId: 0x1234}\<close> returns A, and the \<^verbatim>\<open>getDevices\<close> call that follows returns B
  alone: the pre-filter of \<^verbatim>\<open>getDevices\<close> drops A before \<^verbatim>\<open>isAuthorisedDevice\<close>
  is asked.
\<close>

theorem getDevices_drops_requested_device:
  "fst (requestDevice backendAB (OptionsObject (FiltersArray [noFilter\<lparr>vendorId := Some 0x1234\<rparr>]))
          (WebUSB_new (noOptions\<lparr>allowedDevices := Some [noFilter\<lparr>vendorId := Some 0x1111\<rparr>]\<rparr>)))
     = Inr devA
   \<and> fst (getDevices backendAB (snd (requestDevice backendAB
          (OptionsObject (FiltersArray [noFilter\<lparr>vendorId := Some 0x1234\<rparr>]))
          (WebUSB_new (noOptions\<lparr>allowedDevices := Some [noFilter\<lparr>vendorId := Some 0x1111\<rparr>]\<rparr>)))))
     = [devB]"
  by (simp add: run_defs example_defs)

text \<open>
  C2, as the code has it. On a raw detach whose device is in \<^verbatim>\<open>knownDevices\<close> with an
  authorised cached device, the handler emits one disconnect event carrying that cached
  device; for a device that is not in \<^verbatim>\<open>knownDevices\<close> it emits nothing. In every case
  it leaves \<^verbatim>\<open>knownDevices\<close> as it was: the entry goes only when \<^verbatim>\<open>loadDevices\<close> next
  rebuilds the map.
\<close>

theorem disconnect_emits_and_keeps_entry:
  "(map_of (knownDevices s) device = Some webDevice \<and> isAuthorisedDevice s webDevice \<longrightarrow>
       deviceDisconnectCallback device s =
         s\<lparr>emitted := emitted s @ [\<lparr>ev_type = Disconnect, ev_device = webDevice\<rparr>]\<rparr>)
   \<and> (map_of (knownDevices s) device = None \<longrightarrow> deviceDisconnectCallback device s = s)
   \<and> knownDevices (deviceDisconnectCallback device s) = knownDevices s"
  by (auto simp: deviceDisconnectCallback_def emit_def split: option.splits)

theorem disconnect_emits_and_keeps_entry_witness:
  "map_of (knownDevices (snd (getDevices backendAB
       (WebUSB_new (noOptions\<lparr>allowAllDevices := Some True\<rparr>))))) rawA = Some devA
   \<and> isAuthorisedDevice (snd (getDevices backendAB
       (WebUSB_new (noOptions\<lparr>allowAllDevices := Some True\<rparr>)))) devA
   \<and> deviceDisconnectCallback rawA (snd (getDevices backendAB
       (WebUSB_new (noOptions\<lparr>allowAllDevices := Some True\<rparr>))))
      = (snd (getDevices backendAB (WebUSB_new (noOptions\<lparr>allowAllDevices := Some True\<rparr>))))
        \<lparr>emitted := [\<lparr>ev_type = Disconnect, ev_device = devA\<rparr>]\<rparr>
   \<and> map_of (knownDevices (WebUSB_new noOptions)) rawA = None
   \<and> deviceDisconnectCallback rawA (WebUSB_new noOptions) = WebUSB_new noOptions"
proof -
  let ?s = "snd (getDevices backendAB (WebUSB_new (noOptions\<lparr>allowAllDevices := Some True\<rparr>)))"
  have a: "map_of (knownDevices ?s) rawA = Some devA"
    by (simp add: run_defs example_defs)
  have b: "isAuthorisedDevice ?s devA"
    by (simp add: run_defs example_defs)
  have e: "emitted ?s = []"
    by (simp add: run_defs example_defs)
  have c: "map_of (knownDevices (WebUSB_new noOptions)) rawA = None"
    by (simp add: WebUSB_new_def)
  show ?thesis
    using a b c e disconnect_emits_and_keeps_entry [of ?s rawA devA]
      disconnect_emits_and_keeps_entry [of "WebUSB_new noOptions" rawA devA]
    by simp
qed

text \<open>
  C2 as written fails: after \<^verbatim>\<open>getDevices\<close> has cached device A under allow-all, a detach
  of A emits the disconnect event, and A's entry is still in \<^verbatim>\<open>knownDevices\<close> afterwards.
\<close>

theorem disconnect_keeps_entry_counterexample:
  "map_of (knownDevices (snd (getDevices backendAB
       (WebUSB_new (noOptions\<lparr>allowAllDevices := Some True\<rparr>))))) rawA = Some devA
   \<and> isAuthorisedDevice (snd (getDevices backendAB
       (WebUSB_new (noOptions\<lparr>allowAllDevices := Some True\<rparr>)))) devA
   \<and> emitted (deviceDisconnectCallback rawA
        (snd (getDevices backendAB (WebUSB_new (noOptions\<lparr>allowAllDevices := Some True\<rparr>)))))
      = [\<lparr>ev_type = Disconnect, ev_device = devA\<rparr>]
   \<and> map_of (knownDevices (deviceDisconnectCallback rawA
        (snd (getDevices backendAB (WebUSB_new (noOptions\<lparr>allowAllDevices := Some True\<rparr>))))))
        rawA
      = Some devA"
  by (simp add: run_defs example_defs deviceDisconnectCallback_def emit_def)

text \<open>
  C3, as the code has it. For a non-empty filter list in which no filter takes the
  interface-level early return with a differing serial number, \<^verbatim>\<open>filterDevice\<close> holds iff
  some filter has its truthy vendorId, productId and serialNumber equal to the device's
  and either has no class code and its subclass and protocol agree with the device's own
  fields, or has a class code, the device has a configuration, and class, subclass and
  protocol agree with the device's own fields or with some interface's alternate setting.
\<close>

theorem filterDevice_matching_rule:
  assumes "fs \<noteq> []" and "\<forall>f \<in> set fs. \<not> serialSkipped device f"
  shows "filterDevice device (Some fs) = (\<exists>f \<in> set fs. guarded_filterMatches device f)"
  using assms by (simp add: filterDevice_def list_ex_iff filterMatches_guarded)

theorem filterDevice_matching_rule_witness:
  "[noFilter\<lparr>classCode := Some 3\<rparr>] \<noteq> []
   \<and> \<not> serialSkipped devA (noFilter\<lparr>classCode := Some 3\<rparr>)
   \<and> filterDevice devA (Some [noFilter\<lparr>classCode := Some 3\<rparr>])
   \<and> guarded_filterMatches devA (noFilter\<lparr>classCode := Some 3\<rparr>)"
proof -
  have a: "\<not> serialSkipped devA (noFilter\<lparr>classCode := Some 3\<rparr>)"
    by (simp add: serialSkipped_def differsStr_def example_defs)
  have b: "guarded_filterMatches devA (noFilter\<lparr>classCode := Some 3\<rparr>)"
    by (simp add: guarded_filterMatches_def classFieldsAgree_def deviceInterfaces_def
        differs_def differsStr_def truthy_def example_defs)
  show ?thesis
    using a b filterDevice_matching_rule [of "[noFilter\<lparr>classCode := Some 3\<rparr>]" devA]
    by simp
qed

text \<open>
  C3 as written fails twice. Device B has device class 0xFF and no configuration: the
  filter \<^verbatim>\<open>{classCode: 0xFF}\<close> matches it by the specification's rule, and
  \<^verbatim>\<open>filterDevice\<close> returns false. Device A has device subclass 0 and an interface of
  subclass 1: the filter \<^verbatim>\<open>{subclassCode: 1}\<close> matches it by the specification's rule
  through the interface, and \<^verbatim>\<open>filterDevice\<close>, which consults interfaces only for a
  filter with a class code, returns false.
\<close>

theorem filterDevice_guards_counterexample:
  "spec_filterMatches devB (noFilter\<lparr>classCode := Some 0xFF\<rparr>)
   \<and> \<not> filterDevice devB (Some [noFilter\<lparr>classCode := Some 0xFF\<rparr>])
   \<and> spec_filterMatches devA (noFilter\<lparr>subclassCode := Some 1\<rparr>)
   \<and> \<not> filterDevice devA (Some [noFilter\<lparr>subclassCode := Some 1\<rparr>])"
  by (simp add: spec_filterMatches_def classFieldsAgree_def deviceInterfaces_def run_defs
      example_defs)

text \<open>
  C4, as the code has it. When some filter has a truthy (non-zero) protocolCode and a falsy
  (unset or zero) subclassCode, or a truthy subclassCode and a falsy classCode,
  \<^verbatim>\<open>requestDevice\<close> throws a TypeError and returns the facade's state as it was: no
  backend call is traced, and neither the cache nor the authorised set changes.
\<close>

theorem requestDevice_hierarchy_TypeError:
  assumes "f \<in> set fs"
    and "(truthy (protocolCode f) \<and> \<not> truthy (subclassCode f))
         \<or> (truthy (subclassCode f) \<and> \<not> truthy (classCode f))"
  shows "\<exists>msg. requestDevice be (OptionsObject (FiltersArray fs)) s = (Inl (TypeError msg), s)"
proof -
  obtain msg where "checkFilters fs = Some (TypeError msg)"
    using checkFilters_offending [OF assms] by blast
  then show ?thesis by (simp add: requestDevice_def)
qed

theorem requestDevice_hierarchy_TypeError_witness:
  "noFilter\<lparr>protocolCode := Some 1\<rparr> \<in> set [noFilter, noFilter\<lparr>protocolCode := Some 1\<rparr>]
   \<and> truthy (protocolCode (noFilter\<lparr>protocolCode := Some 1\<rparr>))
   \<and> \<not> truthy (subclassCode (noFilter\<lparr>protocolCode := Some 1\<rparr>))
   \<and> requestDevice backendAB
        (OptionsObject (FiltersArray [noFilter, noFilter\<lparr>protocolCode := Some 1\<rparr>]))
        (WebUSB_new noOptions)
      = (Inl (TypeError ''requestDevice error: subclass code is required''), WebUSB_new noOptions)"
proof -
  let ?f = "noFilter\<lparr>protocolCode := Some 1\<rparr>"
  have a: "?f \<in> set [noFilter, ?f]"
    by simp
  have b: "truthy (protocolCode ?f) \<and> \<not> truthy (subclassCode ?f)"
    by (simp add: truthy_def noFilter_def)
  have c: "checkFilters [noFilter, ?f]
            = Some (TypeError ''requestDevice error: subclass code is required'')"
    by (simp add: truthy_def noFilter_def)
  from b have d: "(truthy (protocolCode ?f) \<and> \<not> truthy (subclassCode ?f))
         \<or> (truthy (subclassCode ?f) \<and> \<not> truthy (classCode ?f))"
    by simp
  obtain msg where m: "requestDevice backendAB (OptionsObject (FiltersArray [noFilter, ?f]))
        (WebUSB_new noOptions) = (Inl (TypeError msg), WebUSB_new noOptions)"
    using requestDevice_hierarchy_TypeError [OF a d] by blast
  moreover have "fst (requestDevice backendAB (OptionsObject (FiltersArray [noFilter, ?f]))
        (WebUSB_new noOptions)) = Inl (TypeError ''requestDevice error: subclass code is required'')"
    using c by (simp add: requestDevice_def)
  ultimately show ?thesis using a b by simp
qed

text \<open>
  C4 as written fails: the filter \<^verbatim>\<open>{protocolCode: 0}\<close> has its protocolCode set and its
  subclassCode unset, and \<^verbatim>\<open>requestDevice\<close> enumerates and adapts the backend's devices
  and returns device A.
\<close>

theorem requestDevice_zero_protocol_counterexample:
  "protocolCode (noFilter\<lparr>protocolCode := Some 0\<rparr>) = Some 0
   \<and> subclassCode (noFilter\<lparr>protocolCode := Some 0\<rparr>) = None
   \<and> fst (requestDevice backendAB (OptionsObject (FiltersArray [noFilter\<lparr>protocolCode := Some 0\<rparr>]))
        (WebUSB_new noOptions)) = Inr devA
   \<and> backendLog (snd (requestDevice backendAB
        (OptionsObject (FiltersArray [noFilter\<lparr>protocolCode := Some 0\<rparr>])) (WebUSB_new noOptions)))
      = [GetDeviceList, CreateInstance rawA None, CreateInstance rawB None]"
  by (simp add: run_defs example_defs)

text \<open>
  C6. For options that pass validation, \<^verbatim>\<open>requestDevice\<close> fails with the NotFoundError
  exactly when the candidate list is empty, or the \<^verbatim>\<open>devicesFound\<close> callback resolves to
  no device, or the callback rejects; and every failure of such a call is that one error
  value, the same name and message in the three cases.
\<close>

theorem requestDevice_NotFoundError_cases:
  assumes "checkFilters fs = None"
  shows "(fst (requestDevice be (OptionsObject (FiltersArray fs)) s) = Inl notFoundError) =
           (candidates be fs s = []
            \<or> (\<exists>callback. devicesFound (options s) = Some callback
                  \<and> (callback (candidates be fs s) = Resolved None
                     \<or> callback (candidates be fs s) = Rejected)))
         \<and> (\<forall>e. fst (requestDevice be (OptionsObject (FiltersArray fs)) s) = Inl e
                  \<longrightarrow> e = notFoundError)"
  using assms
  by (auto simp: requestDevice_def candidates_def selectDevice_def Let_def case_prod_beta
      loadDevices_options split: list.splits selection.splits option.splits)

theorem requestDevice_NotFoundError_cases_witness:
  "checkFilters [noFilter\<lparr>vendorId := Some 0x9999\<rparr>] = None
   \<and> candidates backendAB [noFilter\<lparr>vendorId := Some 0x9999\<rparr>] (WebUSB_new noOptions) = []
   \<and> fst (requestDevice backendAB (OptionsObject (FiltersArray [noFilter\<lparr>vendorId := Some 0x9999\<rparr>]))
        (WebUSB_new noOptions)) = Inl notFoundError"
proof -
  have a: "checkFilters [noFilter\<lparr>vendorId := Some 0x9999\<rparr>] = None"
    by (simp add: truthy_def noFilter_def)
  have b: "candidates backendAB [noFilter\<lparr>vendorId := Some 0x9999\<rparr>] (WebUSB_new noOptions) = []"
    by (simp add: candidates_def run_defs example_defs)
  show ?thesis
    using a b requestDevice_NotFoundError_cases [OF a, of backendAB "WebUSB_new noOptions"]
    by simp
qed

text \<open>
  C9, as the code has it. A falsy filter member is the same as an absent one:
  \<^verbatim>\<open>quickFilter\<close>, \<^verbatim>\<open>filterDevice\<close> and the hierarchy validation give the same result
  on a filter list and on the list with every falsy member left out. A filter with
  protocolCode 0 and no subclassCode passes the validation; a filter with subclassCode 0
  and no classCode never draws the class-code error, and it passes the validation when
  its protocolCode is falsy too; and a call whose filters pass the validation does not
  fail with a TypeError.
\<close>

theorem falsy_fields_are_unspecified:
  "quickFilter devices (Some (map unsetFalsy fs)) = quickFilter devices (Some fs)
   \<and> filterDevice device (Some (map unsetFalsy fs)) = filterDevice device (Some fs)
   \<and> checkFilters (map unsetFalsy fs) = checkFilters fs
   \<and> (protocolCode f = Some 0 \<and> subclassCode f = None \<longrightarrow> checkFilters [f] = None)
   \<and> (subclassCode f = Some 0 \<and> classCode f = None \<longrightarrow>
        checkFilters [f] \<noteq> Some (TypeError ''requestDevice error: class code is required'')
        \<and> (\<not> truthy (protocolCode f) \<longrightarrow> checkFilters [f] = None))
   \<and> (checkFilters fs = None \<longrightarrow>
        (\<forall>msg. fst (requestDevice be (OptionsObject (FiltersArray fs)) s) \<noteq> Inl (TypeError msg)))"
proof -
  have "fst (requestDevice be (OptionsObject (FiltersArray fs)) s) \<noteq> Inl (TypeError msg)"
    if "checkFilters fs = None" for msg
    using that
    by (auto simp: requestDevice_def Let_def case_prod_beta notFoundError_def
        split: list.splits selection.splits option.splits)
  then show ?thesis
    by (simp add: quickFilter_unsetFalsy filterDevice_unsetFalsy checkFilters_unsetFalsy truthy_def)
qed

theorem falsy_fields_are_unspecified_witness:
  "quickFilter [rawA, rawB] (Some [unsetFalsy (noFilter\<lparr>vendorId := Some 0, productId := Some 0x5678\<rparr>)])
     = quickFilter [rawA, rawB] (Some [noFilter\<lparr>vendorId := Some 0, productId := Some 0x5678\<rparr>])
   \<and> quickFilter [rawA, rawB] (Some [noFilter\<lparr>vendorId := Some 0, productId := Some 0x5678\<rparr>]) = [rawA]
   \<and> protocolCode (noFilter\<lparr>protocolCode := Some 0\<rparr>) = Some 0
   \<and> subclassCode (noFilter\<lparr>protocolCode := Some 0\<rparr>) = None
   \<and> checkFilters [noFilter\<lparr>protocolCode := Some 0\<rparr>] = None
   \<and> subclassCode (noFilter\<lparr>subclassCode := Some 0\<rparr>) = Some 0
   \<and> classCode (noFilter\<lparr>subclassCode := Some 0\<rparr>) = None
   \<and> checkFilters [noFilter\<lparr>subclassCode := Some 0\<rparr>] = None
   \<and> fst (requestDevice backendAB (OptionsObject (FiltersArray [noFilter\<lparr>protocolCode := Some 0\<rparr>]))
        (WebUSB_new noOptions)) \<noteq> Inl (TypeError ''requestDevice error: subclass code is required'')"
proof -
  have a: "protocolCode (noFilter\<lparr>protocolCode := Some 0\<rparr>) = Some 0
           \<and> subclassCode (noFilter\<lparr>protocolCode := Some 0\<rparr>) = None"
    by (simp add: noFilter_def)
  have a': "subclassCode (noFilter\<lparr>subclassCode := Some 0\<rparr>) = Some 0
           \<and> classCode (noFilter\<lparr>subclassCode := Some 0\<rparr>) = None
           \<and> \<not> truthy (protocolCode (noFilter\<lparr>subclassCode := Some 0\<rparr>))"
    by (simp add: noFilter_def truthy_def)
  have b: "quickFilter [rawA, rawB] (Some [noFilter\<lparr>vendorId := Some 0, productId := Some 0x5678\<rparr>])
            = [rawA]"
    by (simp add: quickFilter_def differs_def example_defs)
  show ?thesis
    using a a' b
      falsy_fields_are_unspecified [of "[rawA, rawB]"
        "[noFilter\<lparr>vendorId := Some 0, productId := Some 0x5678\<rparr>]" devA
        "noFilter\<lparr>protocolCode := Some 0\<rparr>" backendAB "WebUSB_new noOptions"]
      falsy_fields_are_unspecified [of "[rawA, rawB]"
        "[noFilter\<lparr>protocolCode := Some 0\<rparr>]" devA
        "noFilter\<lparr>subclassCode := Some 0\<rparr>" backendAB "WebUSB_new noOptions"]
    by simp
qed

text \<open>
  C9 as written fails: the filter \<^verbatim>\<open>{subclassCode: 0, protocolCode: 2}\<close> has subclassCode
  0 and no classCode, and \<^verbatim>\<open>requestDevice\<close> rejects it with the TypeError
  \<^verbatim>\<open>subclass code is required\<close>, since the subclassCode 0 counts as absent beside the
  protocolCode 2; no backend call is made.
\<close>

theorem zero_subclass_with_protocol_counterexample:
  "subclassCode (noFilter\<lparr>subclassCode := Some 0, protocolCode := Some 2\<rparr>) = Some 0
   \<and> classCode (noFilter\<lparr>subclassCode := Some 0, protocolCode := Some 2\<rparr>) = None
   \<and> checkFilters [noFilter\<lparr>subclassCode := Some 0, protocolCode := Some 2\<rparr>]
      = Some (TypeError ''requestDevice error: subclass code is required'')
   \<and> requestDevice backendAB
        (OptionsObject (FiltersArray [noFilter\<lparr>subclassCode := Some 0, protocolCode := Some 2\<rparr>]))
        (WebUSB_new noOptions)
      = (Inl (TypeError ''requestDevice error: subclass code is required''), WebUSB_new noOptions)"
  by (simp add: requestDevice_def truthy_def noFilter_def)

text \<open>
  C10. A \<^verbatim>\<open>requestDevice\<close> call that throws, whatever the error, leaves the authorised
  set as it was; a call that returns a device appends exactly that device's snapshot.
\<close>

theorem requestDevice_authorises_on_success_only:
  "(case requestDevice be opts s of
      (Inl e, s') \<Rightarrow> authorisedDevices s' = authorisedDevices s
    | (Inr device, s') \<Rightarrow> authorisedDevices s' = authorisedDevices s @ [snapshot device])"
proof -
  have l: "authorisedDevices (snd (loadDevices be pf s)) = authorisedDevices s" for pf
    by (rule loadDevices_authorised)
  show ?thesis
    by (auto simp: requestDevice_def Let_def case_prod_beta l
        split: js_options.splits js_filters.splits option.splits list.splits selection.splits)
qed

end
